theory Spec2Isabelle
  imports Main
begin

section \<open>Data model of backend/proxy.go\<close>

text \<open>
  Go values are modelled as follows. A Go \<open>error\<close> is a value of the datatype
  \<open>error\<close>, and \<open>nil\<close> is \<open>None\<close> of \<open>error option\<close>. A pair of results
  \<open>(string, error)\<close> stays a pair. A pointer \<open>*Backend\<close> that may be nil (the
  result of a map lookup) is a \<open>Backend option\<close>. A compiled \<open>*regexp.Regexp\<close> is
  represented by its \<open>MatchString\<close> method, a predicate on strings. Go's \<open>int\<close>
  counters are \<open>int\<close>: every counter of this file counts elements of slices held in
  memory, far below \<open>2 ^ 63\<close>.

  The structs \<open>Backend\<close> and \<open>Circle\<close> are declared outside proxy.go; the records
  below hold the fields that proxy.go reads or writes and that the properties are
  about. \<open>CCircleNum\<close> is the field \<open>CircleNum\<close> of \<open>Circle\<close>, renamed apart from
  the field of \<open>MigrationInfo\<close>. The slices \<open>[]*Circle\<close> and \<open>[]*Backend\<close> are
  lists of records: a configuration with a null circle or backend is left out.
\<close>

datatype error = Error string

type_synonym Regexp = "string \<Rightarrow> bool"

record Backend =
  Url :: string

record LineData =
  Db :: string
  Line :: string
  Precision :: string

record MigrationInfo =
  CircleNum :: int
  Database :: string
  Measurement :: string
  BackendMeasureTotal :: int
  BMNeedMigrateCount :: int
  BMNotMigrateCount :: int

text \<open>
  The ring \<open>circle.Router\<close> is a \<open>*consistent.Consistent\<close> of the library
  stathat.com/c/consistent. Its state is kept as what proxy.go does to it: the field
  \<open>NumberOfReplicas\<close> and the elements handed to \<open>Add\<close>, in order. What \<open>Get\<close>
  answers on such a ring is a parameter (\<open>Get\<close> of the environment below).
\<close>

record Consistent =
  NumberOfReplicas :: int
  Members :: "string list"

record Circle =
  Name :: string
  CCircleNum :: int
  Backends :: "Backend list"
  Router :: Consistent
  UrlToBackend :: "string \<rightharpoonup> Backend"
  BackendWgMap :: "string \<rightharpoonup> int"
  WgMigrate :: int
  ReadyMigrating :: bool
  IsMigrating :: bool

record Proxy =
  Circles :: "Circle list"
  DataDir :: string
  DbList :: "string list"
  DbMap :: "string \<rightharpoonup> bool"
  VNodeSize :: int
  FlushSize :: int
  MigrateMaxCpus :: int
  ForbiddenQuery :: "Regexp list"
  ObligatedQuery :: "Regexp list"
  ClusteredQuery :: "Regexp list"
  BackendRebalanceStatus :: "(string \<rightharpoonup> MigrationInfo) list"
  BackendRecoveryStatus :: "(string \<rightharpoonup> MigrationInfo) list"
  BackendResyncStatus :: "(string \<rightharpoonup> MigrationInfo) list"

section \<open>What proxy.go calls and this repository's sources do not hold\<close>

text \<open>
  proxy.go calls the ring library, the line codec (\<open>LineToNano\<close>, \<open>ScanKey\<close>), the
  methods of \<open>Backend\<close> and \<open>Circle\<close> that talk to the remote databases, the JSON
  decoder and the regexp compiler. None of them is in the sources at hand, so each is a
  field of the environment \<open>E\<close> that every function below takes. \<open>'s\<close> is the state of
  the backends' write buffers, which only \<open>WriteDataToBuffer\<close> changes.
  \<open>GetMeasurements\<close> and \<open>CircleMigrate\<close> are functions of their arguments: the
  catalogue of a source backend and the fate of one measurement's copy are taken as fixed
  during a pass.
\<close>

record 's Env =
  Get :: "Consistent \<Rightarrow> string \<Rightarrow> string \<times> error option"
  LineToNano :: "string \<Rightarrow> string \<Rightarrow> string"
  ScanKey :: "string \<Rightarrow> string \<times> error option"
  WriteDataToBuffer :: "Backend option \<Rightarrow> LineData \<Rightarrow> int \<Rightarrow> 's \<Rightarrow> error option \<times> 's"
  GetMeasurements :: "Backend \<Rightarrow> string \<Rightarrow> string list"
  CircleMigrate :: "Circle \<Rightarrow> Backend \<Rightarrow> Backend option list \<Rightarrow> string \<Rightarrow> string \<Rightarrow> int
    \<Rightarrow> error option"
  loadProxyJson :: "string \<Rightarrow> Proxy \<times> error option"
  Compile :: "string \<Rightarrow> error + Regexp"
  ForbidCmds :: "string list"
  SupportCmds :: "string list"
  ClusterCmds :: "string list"

text \<open>
  What a run leaves behind, in order: the lines it logs, the calls it makes on backends,
  the goroutines it starts and the barriers it waits on.
\<close>

datatype event =
    LogRouterGet int string error
  | LogScanKey error
  | LogNoMachines LineData
  | LogWriteBuffer string LineData error
  | CallWriteDataToBuffer "Backend option" LineData
  | LogMigrate error
  | LogWorkerRouter string string error
  | MlogSrcDst string string string string
  | MlogSrcCount string int string string
  | GoMigrate Backend "Backend option list" string string int
  | WaitBarrier string

text \<open>How a call ends: it returns, it waits for ever on a \<open>sync.WaitGroup\<close>, or it
  panics.\<close>

datatype status = Returned | Blocked | Panicked

section \<open>The write path\<close>

text \<open>\<open>GetMachines\<close>: the loop over \<open>proxy.Circles\<close> with its index, the slice
  \<open>machines\<close> and the lines logged so far.\<close>

fun GetMachines_loop ::
  "'s Env \<Rightarrow> string \<Rightarrow> int \<Rightarrow> Circle list \<Rightarrow> Backend option list \<Rightarrow> event list
    \<Rightarrow> Backend option list \<times> event list" where
  "GetMachines_loop E key circleNum [] machines logs = (machines, logs)"
| "GetMachines_loop E key circleNum (circle # rest) machines logs =
     (case Get E (Router circle) key of
        (backendUrl, Some err) \<Rightarrow>
          GetMachines_loop E key (circleNum + 1) rest machines
            (logs @ [LogRouterGet circleNum key err])
      | (backendUrl, None) \<Rightarrow>
          GetMachines_loop E key (circleNum + 1) rest
            (machines @ [UrlToBackend circle backendUrl]) logs)"

definition GetMachines :: "'s Env \<Rightarrow> Proxy \<Rightarrow> string \<Rightarrow> Backend option list \<times> event list" where
  "GetMachines E proxy key = GetMachines_loop E key 0 (Circles proxy) [] []"

definition has_newline_suffix :: "string \<Rightarrow> bool" where
  "has_newline_suffix line = (line \<noteq> [] \<and> last line = CHR 0x0A)"

text \<open>The loop of \<open>WriteData\<close> over the routed backends. On the first error it logs
  \<open>backend.Url\<close> (a nil \<open>backend\<close> panics there) and returns.\<close>

fun WriteData_loop ::
  "'s Env \<Rightarrow> Proxy \<Rightarrow> LineData \<Rightarrow> Backend option list \<Rightarrow> 's \<Rightarrow> status \<times> event list \<times> 's" where
  "WriteData_loop E proxy data [] s = (Returned, [], s)"
| "WriteData_loop E proxy data (backend # rest) s =
     (case WriteDataToBuffer E backend data (FlushSize proxy) s of
        (Some err, s') \<Rightarrow>
          (case backend of
             None \<Rightarrow> (Panicked, [CallWriteDataToBuffer backend data], s')
           | Some b \<Rightarrow>
               (Returned,
                [CallWriteDataToBuffer backend data, LogWriteBuffer (Url b) data err], s'))
      | (None, s') \<Rightarrow>
          (case WriteData_loop E proxy data rest s' of
             (st, evs, s'') \<Rightarrow> (st, CallWriteDataToBuffer backend data # evs, s'')))"

definition WriteData :: "'s Env \<Rightarrow> Proxy \<Rightarrow> LineData \<Rightarrow> 's \<Rightarrow> status \<times> event list \<times> 's" where
  "WriteData E proxy data s =
     (let data1 = data\<lparr>Line := LineToNano E (Line data) (Precision data)\<rparr> in
      case ScanKey E (Line data1) of
        (measure', Some err) \<Rightarrow> (Returned, [LogScanKey err], s)
      | (measure', None) \<Rightarrow>
          (let key = Db data1 @ '','' @ measure' in
           case GetMachines E proxy key of
             (backends, logs) \<Rightarrow>
               if length backends < 1 then (Returned, logs @ [LogNoMachines data1], s)
               else
                 (let data2 =
                    (if \<not> has_newline_suffix (Line data1)
                     then data1\<lparr>Line := Line data1 @ [CHR 0x0A]\<rparr> else data1)
                  in case WriteData_loop E proxy data2 backends s of
                       (st, evs, s') \<Rightarrow> (st, logs @ evs, s'))))"

section \<open>Start-up\<close>

definition zero_info :: MigrationInfo where
  "zero_info = \<lparr> CircleNum = 0, Database = [], Measurement = [], BackendMeasureTotal = 0,
     BMNeedMigrateCount = 0, BMNotMigrateCount = 0 \<rparr>"

definition zero_Proxy :: Proxy where
  "zero_Proxy =
     \<lparr> Circles = [], DataDir = [], DbList = [], DbMap = Map.empty, VNodeSize = 0,
       FlushSize = 0, MigrateMaxCpus = 0, ForbiddenQuery = [], ObligatedQuery = [],
       ClusteredQuery = [], BackendRebalanceStatus = [], BackendRecoveryStatus = [],
       BackendResyncStatus = [] \<rparr>"

text \<open>\<open>Router.Add(url)\<close> on the ring as kept here: one more element.\<close>

definition Add :: "Consistent \<Rightarrow> string \<Rightarrow> Consistent" where
  "Add r elt = r\<lparr>Members := Members r @ [elt]\<rparr>"

definition fresh_slots :: "Backend list \<Rightarrow> (string \<rightharpoonup> MigrationInfo)" where
  "fresh_slots backends = fold (\<lambda>backend m. m(Url backend \<mapsto> zero_info)) backends Map.empty"

definition initMigration :: "Proxy \<Rightarrow> Circle \<Rightarrow> nat \<Rightarrow> Proxy" where
  "initMigration proxy circle circleNum =
     proxy\<lparr> BackendRebalanceStatus :=
              (BackendRebalanceStatus proxy)[circleNum := fresh_slots (Backends circle)],
            BackendRecoveryStatus :=
              (BackendRecoveryStatus proxy)[circleNum := fresh_slots (Backends circle)],
            BackendResyncStatus :=
              (BackendResyncStatus proxy)[circleNum := fresh_slots (Backends circle)] \<rparr>"

text \<open>\<open>initBackend\<close>: the ring and the index get the backend. Its buffers live in the
  buffer state \<open>'s\<close>, and its three goroutines are not part of this model.\<close>

definition initBackend :: "Proxy \<Rightarrow> Circle \<Rightarrow> Backend \<Rightarrow> Circle" where
  "initBackend proxy circle backend =
     circle\<lparr> Router := Add (Router circle) (Url backend),
             UrlToBackend := (UrlToBackend circle)(Url backend \<mapsto> backend) \<rparr>"

definition initCircle :: "Proxy \<Rightarrow> Circle \<Rightarrow> Circle" where
  "initCircle proxy circle =
     fold (\<lambda>backend c.
             initBackend proxy (c\<lparr>BackendWgMap := (BackendWgMap c)(Url backend \<mapsto> 0)\<rparr>) backend)
       (Backends circle)
       (circle\<lparr> Router := \<lparr> NumberOfReplicas = VNodeSize proxy, Members = [] \<rparr>,
               UrlToBackend := Map.empty, BackendWgMap := Map.empty, WgMigrate := 0,
               ReadyMigrating := False, IsMigrating := False \<rparr>)"

text \<open>One round of the loop \<open>for circleNum, circle := range proxy.Circles\<close> of
  \<open>NewProxy\<close>; the circle is changed in place. (\<open>util.CheckPathAndCreate\<close>, which
  \<open>NewProxy\<close> calls before the loop, acts on the file system only.)\<close>

definition init_circle_at :: "nat \<Rightarrow> Proxy \<Rightarrow> Proxy" where
  "init_circle_at circleNum proxy =
     (let circle = (Circles proxy ! circleNum)\<lparr>CCircleNum := int circleNum\<rparr>;
          proxy1 = initMigration proxy circle circleNum
      in proxy1\<lparr>Circles := (Circles proxy1)[circleNum := initCircle proxy1 circle]\<rparr>)"

text \<open>The loop shared by \<open>ForbidQuery\<close>, \<open>EnsureQuery\<close> and \<open>ClusterQuery\<close>: compile
  each command and append it; \<open>None\<close> is the panic on a pattern that does not compile.\<close>

fun compile_append :: "'s Env \<Rightarrow> string list \<Rightarrow> Regexp list \<Rightarrow> Regexp list option" where
  "compile_append E [] rs = Some rs"
| "compile_append E (cmd # cmds) rs =
     (case Compile E cmd of
        Inl err \<Rightarrow> None
      | Inr r \<Rightarrow> compile_append E cmds (rs @ [r]))"

definition ForbidQuery :: "'s Env \<Rightarrow> Proxy \<Rightarrow> string list \<Rightarrow> Proxy option" where
  "ForbidQuery E proxy cmds =
     map_option (\<lambda>rs. proxy\<lparr>ForbiddenQuery := rs\<rparr>) (compile_append E cmds (ForbiddenQuery proxy))"

definition EnsureQuery :: "'s Env \<Rightarrow> Proxy \<Rightarrow> string list \<Rightarrow> Proxy option" where
  "EnsureQuery E proxy cmds =
     map_option (\<lambda>rs. proxy\<lparr>ObligatedQuery := rs\<rparr>) (compile_append E cmds (ObligatedQuery proxy))"

definition ClusterQuery :: "'s Env \<Rightarrow> Proxy \<Rightarrow> string list \<Rightarrow> Proxy option" where
  "ClusterQuery E proxy cmds =
     map_option (\<lambda>rs. proxy\<lparr>ClusteredQuery := rs\<rparr>) (compile_append E cmds (ClusteredQuery proxy))"

definition NewProxy :: "'s Env \<Rightarrow> string \<Rightarrow> status \<times> Proxy \<times> error option" where
  "NewProxy E file =
     (case loadProxyJson E file of
        (proxy, Some err) \<Rightarrow> (Returned, proxy, Some err)
      | (proxy, None) \<Rightarrow>
          (let n = length (Circles proxy);
               proxy1 = proxy\<lparr> BackendRebalanceStatus := replicate n Map.empty,
                               BackendRecoveryStatus := replicate n Map.empty,
                               BackendResyncStatus := replicate n Map.empty \<rparr>;
               proxy2 = (if MigrateMaxCpus proxy1 = 0 then proxy1\<lparr>MigrateMaxCpus := 1\<rparr>
                         else proxy1);
               proxy3 = fold init_circle_at [0..<n] proxy2;
               proxy4 = proxy3\<lparr>DbMap := fold (\<lambda>db m. m(db \<mapsto> True)) (DbList proxy3) Map.empty\<rparr>
           in case ForbidQuery E proxy4 (ForbidCmds E) of
                None \<Rightarrow> (Panicked, proxy4, None)
              | Some proxy5 \<Rightarrow>
                  (case EnsureQuery E proxy5 (SupportCmds E) of
                     None \<Rightarrow> (Panicked, proxy5, None)
                   | Some proxy6 \<Rightarrow>
                       (case ClusterQuery E proxy6 (ClusterCmds E) of
                          None \<Rightarrow> (Panicked, proxy6, None)
                        | Some proxy7 \<Rightarrow> (Returned, proxy7, None)))))"

section \<open>Migration workers\<close>

text \<open>Go's \<open>a % b\<close> for \<open>b \<noteq> 0\<close>: the remainder of the division that truncates
  towards zero. \<open>b = 0\<close> is a run-time panic, checked where \<open>%\<close> is used.\<close>

definition go_rem :: "int \<Rightarrow> int \<Rightarrow> int" where
  "go_rem a b = sgn a * (\<bar>a\<bar> mod \<bar>b\<bar>)"

text \<open>
  A \<open>*sync.WaitGroup\<close> is its counter. \<open>circle.BackendWgMap[url].Add(1)\<close> on a url the
  map does not hold is a call on a nil pointer and panics (\<open>None\<close>).
\<close>

definition wg_Add :: "Circle \<Rightarrow> string \<Rightarrow> Circle option" where
  "wg_Add circle url =
     (case BackendWgMap circle url of
        None \<Rightarrow> None
      | Some n \<Rightarrow> Some (circle\<lparr>BackendWgMap := (BackendWgMap circle)(url \<mapsto> n + 1)\<rparr>))"

text \<open>\<open>Proxy.Migrate\<close>. \<open>Done()\<close> is reached only when \<open>circle.Migrate\<close> returned
  nil; it panics on a nil wait group and on a counter that would go below zero.\<close>

definition Migrate ::
  "'s Env \<Rightarrow> Backend \<Rightarrow> Backend option list \<Rightarrow> Circle \<Rightarrow> string \<Rightarrow> string \<Rightarrow> int
    \<Rightarrow> status \<times> event list \<times> Circle" where
  "Migrate E backend dstBackends circle db m lastSeconds =
     (case CircleMigrate E circle backend dstBackends db m lastSeconds of
        Some err \<Rightarrow> (Returned, [LogMigrate err], circle)
      | None \<Rightarrow>
          (case BackendWgMap circle (Url backend) of
             None \<Rightarrow> (Panicked, [], circle)
           | Some n \<Rightarrow>
               if n - 1 < 0 then (Panicked, [], circle)
               else (Returned, [],
                     circle\<lparr>BackendWgMap := (BackendWgMap circle)(Url backend \<mapsto> n - 1)\<rparr>)))"

definition ClearMigrateStatus :: "(string \<rightharpoonup> MigrationInfo) \<Rightarrow> (string \<rightharpoonup> MigrationInfo)" where
  "ClearMigrateStatus data =
     (\<lambda>url. map_option
        (\<lambda>backend. backend\<lparr> Database := [], Measurement := [], BackendMeasureTotal := 0,
                            BMNeedMigrateCount := 0, BMNotMigrateCount := 0 \<rparr>)
        (data url))"

text \<open>
  A worker runs on the objects its pointers reach: the circle whose \<open>BackendWgMap\<close> is
  its gate, and its own status slot
  \<open>proxy.Backend...Status[circleNum][backend.Url]\<close>. The source looks the slot up
  again at every statement; the map entry is the same pointer throughout a pass (only
  \<open>initMigration\<close> stores into the map), so the model reads it once, where the first
  access of the source would panic on a missing entry, and stores it back at the end.
\<close>

record worker =
  src_circle :: Circle
  slot :: MigrationInfo
  migrateCount :: int
  trace :: "event list"

text \<open>
  The tail the three workers share:
  \<^verbatim>\<open>circle.BackendWgMap[backend.Url].Add(1)
  go proxy.Migrate(backend, dstBackends, circle, db, measure, lastSeconds)
  if migrateCount % proxy.MigrateMaxCpus == 0 { circle.BackendWgMap[backend.Url].Wait() }\<close>
  The goroutine is run to its end where it is started. Only these goroutines and the
  worker touch the counter, each of them at most once after its \<open>Add(1)\<close>, so the
  counter read at \<open>Wait()\<close> is the one every schedule reaches once the started
  goroutines have ended: \<open>Wait()\<close> returns if it is zero and never otherwise.
\<close>

definition launch ::
  "'s Env \<Rightarrow> Proxy \<Rightarrow> Backend \<Rightarrow> Backend option list \<Rightarrow> string \<Rightarrow> string \<Rightarrow> int \<Rightarrow> worker
    \<Rightarrow> status \<times> worker" where
  "launch E proxy backend dstBackends db m lastSeconds w =
     (case wg_Add (src_circle w) (Url backend) of
        None \<Rightarrow> (Panicked, w)
      | Some c1 \<Rightarrow>
          (case Migrate E backend dstBackends c1 db m lastSeconds of
             (st, logs, c2) \<Rightarrow>
               (let w1 = w\<lparr> src_circle := c2,
                            trace := trace w @ [GoMigrate backend dstBackends db m lastSeconds] @ logs \<rparr>
                in if st \<noteq> Returned then (Panicked, w1)
                   else if MigrateMaxCpus proxy = 0 then (Panicked, w1)
                   else if go_rem (migrateCount w1) (MigrateMaxCpus proxy) = 0 then
                     (if BackendWgMap c2 (Url backend) = Some 0
                      then (Returned, w1\<lparr>trace := trace w1 @ [WaitBarrier (Url backend)]\<rparr>)
                      else (Blocked, w1\<lparr>trace := trace w1 @ [WaitBarrier (Url backend)]\<rparr>))
                   else (Returned, w1))))"

subsection \<open>Rebalance\<close>

text \<open>The body of \<open>for _, measure := range measures\<close> in \<open>RebalanceBackend\<close>. A
  failed \<open>Router.Get\<close> is logged and the body goes on with the url it returned.\<close>

definition Rebalance_measure ::
  "'s Env \<Rightarrow> Proxy \<Rightarrow> Backend \<Rightarrow> string \<Rightarrow> string \<Rightarrow> worker \<Rightarrow> status \<times> worker" where
  "Rebalance_measure E proxy backend db m w =
     (let w1 = w\<lparr>slot := (slot w)\<lparr>Measurement := m\<rparr>\<rparr>;
          dbMeasure = db @ '','' @ m
      in case Get E (Router (src_circle w1)) dbMeasure of
           (targetBackendUrl, err) \<Rightarrow>
             (let w2 = (case err of
                          Some e \<Rightarrow> w1\<lparr>trace := trace w1 @ [LogWorkerRouter db m e]\<rparr>
                        | None \<Rightarrow> w1)
              in if targetBackendUrl \<noteq> Url backend then
                   (let w3 = w2\<lparr> slot := (slot w2)\<lparr>BMNeedMigrateCount :=
                                                      BMNeedMigrateCount (slot w2) + 1\<rparr>,
                                  trace := trace w2 @
                                    [MlogSrcDst (Url backend) targetBackendUrl db m] \<rparr>;
                        dstBackend = UrlToBackend (src_circle w3) targetBackendUrl;
                        w4 = w3\<lparr>migrateCount := migrateCount w3 + 1\<rparr>
                    in launch E proxy backend [dstBackend] db m 0 w4)
                 else
                   (Returned,
                    w2\<lparr>slot := (slot w2)\<lparr>BMNotMigrateCount :=
                                           BMNotMigrateCount (slot w2) + 1\<rparr>\<rparr>)))"

fun Rebalance_measures ::
  "'s Env \<Rightarrow> Proxy \<Rightarrow> Backend \<Rightarrow> string \<Rightarrow> string list \<Rightarrow> worker \<Rightarrow> status \<times> worker" where
  "Rebalance_measures E proxy backend db [] w = (Returned, w)"
| "Rebalance_measures E proxy backend db (m # rest) w =
     (case Rebalance_measure E proxy backend db m w of
        (Returned, w') \<Rightarrow> Rebalance_measures E proxy backend db rest w'
      | (st, w') \<Rightarrow> (st, w'))"

fun Rebalance_dbs ::
  "'s Env \<Rightarrow> Proxy \<Rightarrow> Backend \<Rightarrow> string list \<Rightarrow> worker \<Rightarrow> status \<times> worker" where
  "Rebalance_dbs E proxy backend [] w = (Returned, w)"
| "Rebalance_dbs E proxy backend (db # rest) w =
     (let w1 = w\<lparr>slot := (slot w)\<lparr>Database := db\<rparr>\<rparr>;
          measures = GetMeasurements E backend db;
          w2 = w1\<lparr>slot := (slot w1)\<lparr>BackendMeasureTotal := int (length measures)\<rparr>\<rparr>
      in case Rebalance_measures E proxy backend db measures w2 of
           (Returned, w') \<Rightarrow> Rebalance_dbs E proxy backend rest w'
         | (st, w') \<Rightarrow> (st, w'))"

text \<open>What a worker leaves in the proxy: its slot, the gate circle, and, when it
  returns, the deferred \<open>circle.WgMigrate.Done()\<close>.\<close>

definition worker_done :: "status \<Rightarrow> Circle \<Rightarrow> status \<times> Circle" where
  "worker_done st circle =
     (if st = Returned then
        (if WgMigrate circle - 1 < 0 then (Panicked, circle)
         else (Returned, circle\<lparr>WgMigrate := WgMigrate circle - 1\<rparr>))
      else (st, circle))"

definition RebalanceBackend ::
  "'s Env \<Rightarrow> Proxy \<Rightarrow> Backend \<Rightarrow> int \<Rightarrow> string list \<Rightarrow> status \<times> Proxy \<times> event list" where
  "RebalanceBackend E proxy backend circleNum databases =
     (if circleNum < 0 \<or> int (length (BackendRebalanceStatus proxy)) \<le> circleNum
      then (Panicked, proxy, [])
      else
        (let n = nat circleNum;
             cleared = ClearMigrateStatus (BackendRebalanceStatus proxy ! n);
             proxy1 = proxy\<lparr>BackendRebalanceStatus := (BackendRebalanceStatus proxy)[n := cleared]\<rparr>
         in if int (length (Circles proxy1)) \<le> circleNum then (Panicked, proxy1, [])
            else
              (case cleared (Url backend) of
                 None \<Rightarrow> (Panicked, proxy1, [])
               | Some info \<Rightarrow>
                   (case Rebalance_dbs E proxy1 backend databases
                           \<lparr> src_circle = Circles proxy1 ! n,
                             slot = info\<lparr>CircleNum := circleNum\<rparr>,
                             migrateCount = 0, trace = [] \<rparr> of
                      (st, w) \<Rightarrow>
                        (case worker_done st (src_circle w) of
                           (st', circle') \<Rightarrow>
                             (st',
                              proxy1\<lparr> BackendRebalanceStatus :=
                                        (BackendRebalanceStatus proxy1)
                                          [n := cleared(Url backend \<mapsto> slot w)],
                                      Circles := (Circles proxy1)[n := circle'] \<rparr>,
                              trace w))))))"

subsection \<open>Recovery\<close>

text \<open>
  \<open>RecoveryBackend\<close> gets two pointers into \<open>proxy.Circles\<close>; here they are the
  positions \<open>fromIdx\<close> and \<open>toIdx\<close> in that list. The worker changes the wait-group
  counters of the source circle only, so the ring and the index of the target circle
  are read from the circle as it was when the worker started, also when both pointers
  are the same circle. A failed \<open>Router.Get\<close> is logged and the measurement is left
  (\<open>continue\<close>).
\<close>

definition Recovery_measure ::
  "'s Env \<Rightarrow> Proxy \<Rightarrow> Backend \<Rightarrow> Circle \<Rightarrow> (string \<rightharpoonup> bool) \<Rightarrow> string \<Rightarrow> string \<Rightarrow> worker
    \<Rightarrow> status \<times> worker" where
  "Recovery_measure E proxy backend toCircle recoveryBackendUrlMap db m w =
     (let w1 = w\<lparr>slot := (slot w)\<lparr>Measurement := m\<rparr>\<rparr>;
          dbMeasure = db @ '','' @ m
      in case Get E (Router toCircle) dbMeasure of
           (targetBackendUrl, Some err) \<Rightarrow>
             (Returned, w1\<lparr>trace := trace w1 @ [LogWorkerRouter db m err]\<rparr>)
         | (targetBackendUrl, None) \<Rightarrow>
             if recoveryBackendUrlMap targetBackendUrl \<noteq> None then
               (let w3 = w1\<lparr> slot := (slot w1)\<lparr>BMNeedMigrateCount :=
                                                  BMNeedMigrateCount (slot w1) + 1\<rparr>,
                              trace := trace w1 @
                                [MlogSrcDst (Url backend) targetBackendUrl db m] \<rparr>;
                    dstBackend = UrlToBackend toCircle targetBackendUrl;
                    w4 = w3\<lparr>migrateCount := migrateCount w3 + 1\<rparr>
                in launch E proxy backend [dstBackend] db m 0 w4)
             else
               (Returned,
                w1\<lparr>slot := (slot w1)\<lparr>BMNotMigrateCount :=
                                       BMNotMigrateCount (slot w1) + 1\<rparr>\<rparr>))"

fun Recovery_measures ::
  "'s Env \<Rightarrow> Proxy \<Rightarrow> Backend \<Rightarrow> Circle \<Rightarrow> (string \<rightharpoonup> bool) \<Rightarrow> string \<Rightarrow> string list \<Rightarrow> worker
    \<Rightarrow> status \<times> worker" where
  "Recovery_measures E proxy backend toCircle urlMap db [] w = (Returned, w)"
| "Recovery_measures E proxy backend toCircle urlMap db (m # rest) w =
     (case Recovery_measure E proxy backend toCircle urlMap db m w of
        (Returned, w') \<Rightarrow> Recovery_measures E proxy backend toCircle urlMap db rest w'
      | (st, w') \<Rightarrow> (st, w'))"

fun Recovery_dbs ::
  "'s Env \<Rightarrow> Proxy \<Rightarrow> Backend \<Rightarrow> Circle \<Rightarrow> (string \<rightharpoonup> bool) \<Rightarrow> string list \<Rightarrow> worker
    \<Rightarrow> status \<times> worker" where
  "Recovery_dbs E proxy backend toCircle urlMap [] w = (Returned, w)"
| "Recovery_dbs E proxy backend toCircle urlMap (db # rest) w =
     (let w1 = w\<lparr>slot := (slot w)\<lparr>Database := db\<rparr>\<rparr>;
          measures = GetMeasurements E backend db;
          w2 = w1\<lparr>slot := (slot w1)\<lparr>BackendMeasureTotal := int (length measures)\<rparr>\<rparr>
      in case Recovery_measures E proxy backend toCircle urlMap db measures w2 of
           (Returned, w') \<Rightarrow> Recovery_dbs E proxy backend toCircle urlMap rest w'
         | (st, w') \<Rightarrow> (st, w'))"

definition RecoveryBackend ::
  "'s Env \<Rightarrow> Proxy \<Rightarrow> Backend \<Rightarrow> nat \<Rightarrow> nat \<Rightarrow> (string \<rightharpoonup> bool) \<Rightarrow> string list
    \<Rightarrow> status \<times> Proxy \<times> event list" where
  "RecoveryBackend E proxy backend fromIdx toIdx recoveryBackendUrlMap databases =
     (if length (Circles proxy) \<le> fromIdx \<or> length (Circles proxy) \<le> toIdx
      then (Panicked, proxy, [])
      else
        (let fromCircle = Circles proxy ! fromIdx;
             toCircle = Circles proxy ! toIdx;
             fromCircleNum = CCircleNum fromCircle
         in if fromCircleNum < 0 \<or> int (length (BackendRecoveryStatus proxy)) \<le> fromCircleNum
            then (Panicked, proxy, [])
            else
              (let n = nat fromCircleNum;
                   cleared = ClearMigrateStatus (BackendRecoveryStatus proxy ! n);
                   proxy1 = proxy\<lparr>BackendRecoveryStatus :=
                                    (BackendRecoveryStatus proxy)[n := cleared]\<rparr>
               in case cleared (Url backend) of
                    None \<Rightarrow> (Panicked, proxy1, [])
                  | Some info \<Rightarrow>
                      (case Recovery_dbs E proxy1 backend toCircle recoveryBackendUrlMap
                              databases
                              \<lparr> src_circle = fromCircle,
                                slot = info\<lparr>CircleNum := fromCircleNum\<rparr>,
                                migrateCount = 0, trace = [] \<rparr> of
                         (st, w) \<Rightarrow>
                           (case worker_done st (src_circle w) of
                              (st', circle') \<Rightarrow>
                                (st',
                                 proxy1\<lparr> BackendRecoveryStatus :=
                                           (BackendRecoveryStatus proxy1)
                                             [n := cleared(Url backend \<mapsto> slot w)],
                                         Circles := (Circles proxy1)[fromIdx := circle'] \<rparr>,
                                 trace w))))))"

subsection \<open>Resync\<close>

text \<open>The loop \<open>for _, toCircle := range proxy.Circles\<close> that collects the destinations
  of one measurement in the other circles.\<close>

fun Resync_dsts ::
  "'s Env \<Rightarrow> int \<Rightarrow> string \<Rightarrow> string \<Rightarrow> string \<Rightarrow> Circle list \<Rightarrow> Backend option list \<Rightarrow> event list
    \<Rightarrow> Backend option list \<times> event list" where
  "Resync_dsts E circleNum db m dbMeasure [] dstBackends logs = (dstBackends, logs)"
| "Resync_dsts E circleNum db m dbMeasure (toCircle # rest) dstBackends logs =
     (if CCircleNum toCircle \<noteq> circleNum then
        (case Get E (Router toCircle) dbMeasure of
           (targetBackendUrl, Some err) \<Rightarrow>
             Resync_dsts E circleNum db m dbMeasure rest dstBackends
               (logs @ [LogWorkerRouter db m err])
         | (targetBackendUrl, None) \<Rightarrow>
             Resync_dsts E circleNum db m dbMeasure rest
               (dstBackends @ [UrlToBackend toCircle targetBackendUrl]) logs)
      else Resync_dsts E circleNum db m dbMeasure rest dstBackends logs)"

definition Resync_measure ::
  "'s Env \<Rightarrow> Proxy \<Rightarrow> Backend \<Rightarrow> int \<Rightarrow> int \<Rightarrow> string \<Rightarrow> string \<Rightarrow> worker \<Rightarrow> status \<times> worker" where
  "Resync_measure E proxy backend circleNum lastSeconds db m w =
     (let w1 = w\<lparr>slot := (slot w)\<lparr>Measurement := m\<rparr>\<rparr>;
          dbMeasure = db @ '','' @ m
      in case Resync_dsts E circleNum db m dbMeasure (Circles proxy) [] [] of
           (dstBackends, logs) \<Rightarrow>
             (let w2 = w1\<lparr>trace := trace w1 @ logs\<rparr>
              in if length dstBackends > 0 then
                   (let w3 = w2\<lparr> slot := (slot w2)\<lparr>BMNeedMigrateCount :=
                                                      BMNeedMigrateCount (slot w2) + 1\<rparr>,
                                  trace := trace w2 @
                                    [MlogSrcCount (Url backend) (int (length dstBackends)) db m] \<rparr>;
                        w4 = w3\<lparr>migrateCount := migrateCount w3 + 1\<rparr>
                    in launch E proxy backend dstBackends db m lastSeconds w4)
                 else
                   (Returned,
                    w2\<lparr>slot := (slot w2)\<lparr>BMNotMigrateCount :=
                                           BMNotMigrateCount (slot w2) + 1\<rparr>\<rparr>)))"

fun Resync_measures ::
  "'s Env \<Rightarrow> Proxy \<Rightarrow> Backend \<Rightarrow> int \<Rightarrow> int \<Rightarrow> string \<Rightarrow> string list \<Rightarrow> worker
    \<Rightarrow> status \<times> worker" where
  "Resync_measures E proxy backend circleNum lastSeconds db [] w = (Returned, w)"
| "Resync_measures E proxy backend circleNum lastSeconds db (m # rest) w =
     (case Resync_measure E proxy backend circleNum lastSeconds db m w of
        (Returned, w') \<Rightarrow> Resync_measures E proxy backend circleNum lastSeconds db rest w'
      | (st, w') \<Rightarrow> (st, w'))"

fun Resync_dbs ::
  "'s Env \<Rightarrow> Proxy \<Rightarrow> Backend \<Rightarrow> int \<Rightarrow> int \<Rightarrow> string list \<Rightarrow> worker \<Rightarrow> status \<times> worker" where
  "Resync_dbs E proxy backend circleNum lastSeconds [] w = (Returned, w)"
| "Resync_dbs E proxy backend circleNum lastSeconds (db # rest) w =
     (let w1 = w\<lparr>slot := (slot w)\<lparr>Database := db\<rparr>\<rparr>;
          measures = GetMeasurements E backend db;
          w2 = w1\<lparr>slot := (slot w1)\<lparr>BackendMeasureTotal := int (length measures)\<rparr>\<rparr>
      in case Resync_measures E proxy backend circleNum lastSeconds db measures w2 of
           (Returned, w') \<Rightarrow> Resync_dbs E proxy backend circleNum lastSeconds rest w'
         | (st, w') \<Rightarrow> (st, w'))"

definition ResyncBackend ::
  "'s Env \<Rightarrow> Proxy \<Rightarrow> Backend \<Rightarrow> nat \<Rightarrow> string list \<Rightarrow> int \<Rightarrow> status \<times> Proxy \<times> event list" where
  "ResyncBackend E proxy backend idx databases lastSeconds =
     (if length (Circles proxy) \<le> idx then (Panicked, proxy, [])
      else
        (let circle = Circles proxy ! idx;
             circleNum = CCircleNum circle
         in if circleNum < 0 \<or> int (length (BackendResyncStatus proxy)) \<le> circleNum
            then (Panicked, proxy, [])
            else
              (let n = nat circleNum;
                   cleared = ClearMigrateStatus (BackendResyncStatus proxy ! n);
                   proxy1 = proxy\<lparr>BackendResyncStatus :=
                                    (BackendResyncStatus proxy)[n := cleared]\<rparr>
               in case cleared (Url backend) of
                    None \<Rightarrow> (Panicked, proxy1, [])
                  | Some info \<Rightarrow>
                      (case Resync_dbs E proxy1 backend circleNum lastSeconds databases
                              \<lparr> src_circle = circle,
                                slot = info\<lparr>CircleNum := circleNum\<rparr>,
                                migrateCount = 0, trace = [] \<rparr> of
                         (st, w) \<Rightarrow>
                           (case worker_done st (src_circle w) of
                              (st', circle') \<Rightarrow>
                                (st',
                                 proxy1\<lparr> BackendResyncStatus :=
                                           (BackendResyncStatus proxy1)
                                             [n := cleared(Url backend \<mapsto> slot w)],
                                         Circles := (Circles proxy1)[idx := circle'] \<rparr>,
                                 trace w))))))"

section \<open>Query admission\<close>

text \<open>The loop \<open>for _, r := range rs { if r.MatchString(q) { return ... } }\<close>: does some
  regexp of the slice match, scanning from the front.\<close>

fun any_match :: "Regexp list \<Rightarrow> string \<Rightarrow> bool" where
  "any_match [] q = False"
| "any_match (r # rs) q = (if r q then True else any_match rs q)"

definition CheckMeasurementQuery :: "Proxy \<Rightarrow> string \<Rightarrow> bool" where
  "CheckMeasurementQuery proxy q =
     (if length (ForbiddenQuery proxy) \<noteq> 0 \<and> any_match (ForbiddenQuery proxy) q then False
      else if length (ObligatedQuery proxy) \<noteq> 0 then
        (if any_match (ObligatedQuery proxy) q then True else False)
      else True)"

definition CheckClusterQuery :: "Proxy \<Rightarrow> string \<Rightarrow> bool" where
  "CheckClusterQuery proxy q =
     (if length (ClusteredQuery proxy) \<noteq> 0 then
        (if any_match (ClusteredQuery proxy) q then True else False)
      else True)"

definition CheckCreateDatabaseQuery :: "Proxy \<Rightarrow> string \<Rightarrow> bool" where
  "CheckCreateDatabaseQuery proxy q =
     (if length (ClusteredQuery proxy) \<noteq> 0 then
        (ClusteredQuery proxy ! (length (ClusteredQuery proxy) - 1)) q
      else False)"

text \<open>Stand-ins for compiled patterns in the examples: an anchored literal such as
  \<open>^DROP\<close> matches exactly the strings that start with the literal.\<close>

definition anchored :: "string \<Rightarrow> Regexp" where
  "anchored lit q = (take (length lit) q = lit)"

definition admission_proxy :: Proxy where
  "admission_proxy =
     \<lparr> Circles = [], DataDir = [], DbList = [], DbMap = Map.empty, VNodeSize = 0,
       FlushSize = 0, MigrateMaxCpus = 1,
       ForbiddenQuery = [anchored ''DROP DATABASE''],
       ObligatedQuery = [anchored ''SELECT'', anchored ''SHOW''],
       ClusteredQuery = [anchored ''SHOW DATABASES'', anchored ''CREATE DATABASE''],
       BackendRebalanceStatus = [], BackendRecoveryStatus = [], BackendResyncStatus = [] \<rparr>"

section \<open>The statements' own vocabulary\<close>

text \<open>A circle routes a key when its ring lookup returns no error.\<close>

definition ring_ok :: "'s Env \<Rightarrow> string \<Rightarrow> Circle \<Rightarrow> bool" where
  "ring_ok E key circle = (snd (Get E (Router circle) key) = None)"

text \<open>The log lines of the circles that do not route a key, numbered from \<open>n\<close>.\<close>

fun skipped_logs :: "'s Env \<Rightarrow> string \<Rightarrow> int \<Rightarrow> Circle list \<Rightarrow> event list" where
  "skipped_logs E key n [] = []"
| "skipped_logs E key n (c # cs) =
     (case snd (Get E (Router c) key) of
        Some err \<Rightarrow> LogRouterGet n key err # skipped_logs E key (n + 1) cs
      | None \<Rightarrow> skipped_logs E key (n + 1) cs)"



text \<open>\<open>circle.Route(db + "," + m)\<close>, and whether it leaves the source backend.\<close>

definition target :: "'s Env \<Rightarrow> Circle \<Rightarrow> string \<times> string \<Rightarrow> string" where
  "target E circle dm = fst (Get E (Router circle) (fst dm @ '','' @ snd dm))"

definition routed_away :: "'s Env \<Rightarrow> Circle \<Rightarrow> Backend \<Rightarrow> string \<times> string \<Rightarrow> bool" where
  "routed_away E circle backend dm = (target E circle dm \<noteq> Url backend)"

text \<open>The call \<open>Migrate(B, [target], db, m, 0)\<close> of one scanned pair.\<close>

definition migration_of :: "'s Env \<Rightarrow> Circle \<Rightarrow> Backend \<Rightarrow> string \<times> string \<Rightarrow> event" where
  "migration_of E circle backend dm =
     GoMigrate backend [UrlToBackend circle (target E circle dm)] (fst dm) (snd dm) 0"



section \<open>Fixtures for the examples\<close>

text \<open>
  An environment to run the definitions on; the theorems hold for every environment,
  and the examples run on this one. The ring picks a member by the length of the key
  and fails when it has no member or no virtual node; the codec leaves the line as it
  is (precision \<open>n\<close>) and takes the measurement up to the first comma or blank; a
  backend's buffer is a string that \<open>WriteDataToBuffer\<close> appends to, unless the
  backend is in \<open>failing\<close>; every backend holds the same catalogue; the copy of a
  measurement in \<open>broken\<close> fails.
\<close>

definition demo_Get :: "Consistent \<Rightarrow> string \<Rightarrow> string \<times> error option" where
  "demo_Get r key =
     (if Members r = [] \<or> NumberOfReplicas r \<le> 0 then ('''', Some (Error ''empty circle''))
      else (Members r ! (length key mod length (Members r)), None))"

definition demo_ScanKey :: "string \<Rightarrow> string \<times> error option" where
  "demo_ScanKey line =
     (let m = takeWhile (\<lambda>c. c \<noteq> CHR '','' \<and> c \<noteq> CHR '' '') line
      in if m = [] then ('''', Some (Error ''missing measurement'')) else (m, None))"

definition demo_WriteDataToBuffer ::
  "string list \<Rightarrow> Backend option \<Rightarrow> LineData \<Rightarrow> int \<Rightarrow> (string \<Rightarrow> string)
    \<Rightarrow> error option \<times> (string \<Rightarrow> string)" where
  "demo_WriteDataToBuffer failing backend data flushSize s =
     (case backend of
        None \<Rightarrow> (Some (Error ''nil backend''), s)
      | Some b \<Rightarrow>
          if Url b \<in> set failing then (Some (Error ''buffer write failed''), s)
          else (None, s(Url b := s (Url b) @ Line data)))"

definition demo_GetMeasurements :: "Backend \<Rightarrow> string \<Rightarrow> string list" where
  "demo_GetMeasurements backend db =
     (if db = ''db'' then [''cpu'', ''disk'', ''mem'', ''swap'', ''net1'']
      else if db = ''db2'' then [''io''] else [])"

definition demo_config :: "int \<Rightarrow> Proxy" where
  "demo_config maxCpus =
     zero_Proxy\<lparr> Circles :=
       [\<lparr> Name = ''c0'', CCircleNum = 0, Backends = [\<lparr>Url = ''http://a''\<rparr>],
          Router = \<lparr>NumberOfReplicas = 0, Members = []\<rparr>, UrlToBackend = Map.empty,
          BackendWgMap = Map.empty, WgMigrate = 0, ReadyMigrating = False,
          IsMigrating = False \<rparr>],
       DbList := [''db''], VNodeSize := 160, FlushSize := 10000,
       MigrateMaxCpus := maxCpus \<rparr>"

definition demo_env :: "string list \<Rightarrow> string list \<Rightarrow> (string \<Rightarrow> string) Env" where
  "demo_env failing broken =
     \<lparr> Get = demo_Get, LineToNano = (\<lambda>line precision. line), ScanKey = demo_ScanKey,
       WriteDataToBuffer = demo_WriteDataToBuffer failing,
       GetMeasurements = demo_GetMeasurements,
       CircleMigrate = (\<lambda>circle src dsts db m lastSeconds.
          if m \<in> set broken then Some (Error ''migrate failed'') else None),
       loadProxyJson = (\<lambda>file.
          if file = ''proxy.json'' then (demo_config 0, None)
          else if file = ''cpus4.json'' then (demo_config 4, None)
          else (zero_Proxy, Some (Error ''open failed''))),
       Compile = (\<lambda>cmd. Inr (anchored cmd)),
       ForbidCmds = [''DROP DATABASE''], SupportCmds = [''SELECT'', ''SHOW''],
       ClusterCmds = [''SHOW DATABASES'', ''CREATE DATABASE''] \<rparr>"

text \<open>A circle as \<open>initCircle\<close> leaves it, with \<open>WgMigrate\<close> at one: the dispatcher's
  \<open>Add(1)\<close> for the one worker an example runs.\<close>

definition demo_circle :: "string \<Rightarrow> int \<Rightarrow> string list \<Rightarrow> Circle" where
  "demo_circle nm n urls =
     \<lparr> Name = nm, CCircleNum = n, Backends = map (\<lambda>u. \<lparr>Url = u\<rparr>) urls,
       Router = \<lparr> NumberOfReplicas = 160, Members = urls \<rparr>,
       UrlToBackend = map_of (map (\<lambda>u. (u, \<lparr>Url = u\<rparr>)) urls),
       BackendWgMap = map_of (map (\<lambda>u. (u, 0)) urls),
       WgMigrate = 1, ReadyMigrating = False, IsMigrating = False \<rparr>"

definition status_of :: "Circle list \<Rightarrow> (string \<rightharpoonup> MigrationInfo) list" where
  "status_of cs = map (\<lambda>c. map_of (map (\<lambda>b. (Url b, zero_info)) (Backends c))) cs"

definition demo_proxy :: "Circle list \<Rightarrow> int \<Rightarrow> Proxy" where
  "demo_proxy cs maxCpus =
     \<lparr> Circles = cs, DataDir = ''data'', DbList = [''db''], DbMap = [''db'' \<mapsto> True],
       VNodeSize = 160, FlushSize = 10000, MigrateMaxCpus = maxCpus,
       ForbiddenQuery = [], ObligatedQuery = [], ClusteredQuery = [],
       BackendRebalanceStatus = status_of cs, BackendRecoveryStatus = status_of cs,
       BackendResyncStatus = status_of cs \<rparr>"

definition two_circles :: "Circle list" where
  "two_circles = [demo_circle ''c0'' 0 [''http://a''], demo_circle ''c1'' 1 [''http://b'']]"

definition cpu_line :: "string \<Rightarrow> LineData" where
  "cpu_line db = \<lparr> Db = db, Line = ''cpu value=1'', Precision = ''n'' \<rparr>"

definition three_circles :: "Circle list" where
  "three_circles = [demo_circle ''c0'' 0 [''http://a''], demo_circle ''c1'' 1 [],
                  demo_circle ''c2'' 2 [''http://b'', ''http://c'']]"

definition ab_circle :: Circle where
  "ab_circle = demo_circle ''c0'' 0 [''http://a'', ''http://b'']"

text \<open>A circle whose two other replicas route: for \<open>Recovery\<close> and \<open>Resync\<close>.\<close>

definition cd_circle :: Circle where
  "cd_circle = demo_circle ''c1'' 1 [''http://c'', ''http://d'']"

definition backend_a :: Backend where
  "backend_a = \<lparr>Url = ''http://a''\<rparr>"

definition backend_b :: Backend where
  "backend_b = \<lparr>Url = ''http://b''\<rparr>"

text \<open>The circle after the worker's \<open>Add(1)\<close> on the gate of \<open>http://a\<close>.\<close>

definition armed_circle :: Circle where
  "armed_circle = ab_circle\<lparr>BackendWgMap := (BackendWgMap ab_circle)(''http://a'' \<mapsto> 1)\<rparr>"

text \<open>A rebalance of \<open>http://a\<close> with one slot of parallelism, in which the copy of
  \<open>disk\<close> fails.\<close>

definition blocked_run :: "status \<times> Proxy \<times> event list" where
  "blocked_run =
     RebalanceBackend (demo_env [] [''disk'']) (demo_proxy [ab_circle] 1) backend_a 0 [''db'']"

text \<open>A circle configured with \<open>vnode_size\<close> 0: it has backends, and every lookup on
  its ring fails.\<close>

definition novnode_circle :: Circle where
  "novnode_circle = ab_circle\<lparr>Router := \<lparr>NumberOfReplicas = 0,
     Members = [''http://a'', ''http://b'']\<rparr>\<rparr>"

definition fresh_worker :: "Circle \<Rightarrow> worker" where
  "fresh_worker circle = \<lparr> src_circle = circle, slot = zero_info, migrateCount = 0, trace = [] \<rparr>"

text \<open>Runs of the three workers on one database, and on two.\<close>

definition rebalance_run :: "string list \<Rightarrow> status \<times> Proxy \<times> event list" where
  "rebalance_run databases =
     RebalanceBackend (demo_env [] []) (demo_proxy [ab_circle] 2) backend_a 0 databases"

definition resync_run :: "status \<times> Proxy \<times> event list" where
  "resync_run =
     ResyncBackend (demo_env [] []) (demo_proxy [ab_circle, cd_circle] 1) backend_a 0 [''db''] 60"

definition recovery_run :: "Circle \<Rightarrow> status \<times> Proxy \<times> event list" where
  "recovery_run toCircle =
     RecoveryBackend (demo_env [] []) (demo_proxy [ab_circle, toCircle] 1) backend_a 0 1
       [''http://c'' \<mapsto> True] [''db'']"


section \<open>Invariants of the worker loops\<close>

text \<open>The worker never changes the ring or the index of its circle.\<close>

definition same_ring :: "Circle \<Rightarrow> Circle \<Rightarrow> bool" where
  "same_ring c c' = (Router c' = Router c \<and> UrlToBackend c' = UrlToBackend c)"







text \<open>Between two launches of a worker whose migrations all succeed, the gate of the
  source is back at zero and \<open>WgMigrate\<close> is what it was.\<close>

definition gate_idle :: "Backend \<Rightarrow> int \<Rightarrow> worker \<Rightarrow> bool" where
  "gate_idle b k w =
     (BackendWgMap (src_circle w) (Url b) = Some 0 \<and> WgMigrate (src_circle w) = k)"

lemmas demo_simps = demo_env_def demo_proxy_def demo_circle_def demo_Get_def demo_ScanKey_def
  demo_WriteDataToBuffer_def two_circles_def three_circles_def cpu_line_def status_of_def
  zero_info_def mod_Suc

section \<open>Query admission: properties\<close>

lemma any_match_iff: "any_match rs q \<longleftrightarrow> (\<exists>r \<in> set rs. r q)"
  by (induction rs) auto

text \<open>
  C7. For every query string \<open>q\<close>, \<open>CheckMeasurementQuery\<close> answers true exactly when no
  regexp of the forbidden set matches \<open>q\<close> and the obligated set is empty or one of its
  regexps matches \<open>q\<close>.
\<close>

theorem CheckMeasurementQuery_iff:
  "CheckMeasurementQuery proxy q \<longleftrightarrow>
     \<not> (\<exists>fq \<in> set (ForbiddenQuery proxy). fq q) \<and>
     (ObligatedQuery proxy = [] \<or> (\<exists>pq \<in> set (ObligatedQuery proxy). pq q))"
  unfolding CheckMeasurementQuery_def any_match_iff by auto

theorem CheckMeasurementQuery_iff_witness:
  "CheckMeasurementQuery admission_proxy ''SELECT * FROM cpu'' \<and>
   \<not> CheckMeasurementQuery admission_proxy ''DROP DATABASE x'' \<and>
   \<not> CheckMeasurementQuery admission_proxy ''INSERT cpu value=1''"
  using CheckMeasurementQuery_iff [of admission_proxy "''SELECT * FROM cpu''"]
    CheckMeasurementQuery_iff [of admission_proxy "''DROP DATABASE x''"]
    CheckMeasurementQuery_iff [of admission_proxy "''INSERT cpu value=1''"]
  by (simp add: admission_proxy_def anchored_def)

text \<open>
  C8. For every query string \<open>q\<close>, when the clustered set is not empty,
  \<open>CheckCreateDatabaseQuery\<close> answers true exactly when the last regexp of the clustered
  set matches \<open>q\<close>.
\<close>

theorem CheckCreateDatabaseQuery_last:
  "ClusteredQuery proxy \<noteq> [] \<Longrightarrow>
     CheckCreateDatabaseQuery proxy q \<longleftrightarrow> (last (ClusteredQuery proxy)) q"
  unfolding CheckCreateDatabaseQuery_def by (simp add: last_conv_nth)

theorem CheckCreateDatabaseQuery_last_witness:
  "ClusteredQuery admission_proxy \<noteq> [] \<and>
   CheckCreateDatabaseQuery admission_proxy ''CREATE DATABASE x'' \<and>
   last (ClusteredQuery admission_proxy) ''CREATE DATABASE x'' \<and>
   \<not> CheckCreateDatabaseQuery admission_proxy ''SHOW DATABASES''"
  using CheckCreateDatabaseQuery_last [of admission_proxy "''CREATE DATABASE x''"]
    CheckCreateDatabaseQuery_last [of admission_proxy "''SHOW DATABASES''"]
  by (simp add: admission_proxy_def anchored_def)

section \<open>The write path: properties\<close>

lemma GetMachines_loop_eq:
  "GetMachines_loop E key n cs ms lg =
     (ms @ map (\<lambda>c. UrlToBackend c (fst (Get E (Router c) key))) (filter (ring_ok E key) cs),
      lg @ skipped_logs E key n cs)"
  by (induction cs arbitrary: n ms lg) (auto simp: ring_ok_def split: prod.splits option.splits)

text \<open>
  C6. For every key, \<open>GetMachines\<close> returns, in the order of the circles, one entry for
  each circle whose ring lookup succeeds: the backend that the circle's index holds for
  the url the ring returned. A circle whose lookup fails adds no entry and one log
  line with its number, so the result is as long as the list of circles whose lookup
  succeeds.
\<close>

theorem GetMachines_one_per_routed_circle:
  "fst (GetMachines E proxy key) =
     map (\<lambda>c. UrlToBackend c (fst (Get E (Router c) key)))
       (filter (ring_ok E key) (Circles proxy)) \<and>
   length (fst (GetMachines E proxy key)) = length (filter (ring_ok E key) (Circles proxy)) \<and>
   snd (GetMachines E proxy key) = skipped_logs E key 0 (Circles proxy)"
  by (simp add: GetMachines_def GetMachines_loop_eq)

theorem GetMachines_one_per_routed_circle_witness:
  "fst (GetMachines (demo_env [] []) (demo_proxy three_circles 1) ''db,cpu'') =
     [Some \<lparr>Url = ''http://a''\<rparr>, Some \<lparr>Url = ''http://b''\<rparr>] \<and>
   length (filter (ring_ok (demo_env [] []) ''db,cpu'') (Circles (demo_proxy three_circles 1))) = 2 \<and>
   snd (GetMachines (demo_env [] []) (demo_proxy three_circles 1) ''db,cpu'') =
     [LogRouterGet 1 ''db,cpu'' (Error ''empty circle'')]"
proof -
  have r: "map (\<lambda>c. UrlToBackend c (fst (Get (demo_env [] []) (Router c) ''db,cpu'')))
       (filter (ring_ok (demo_env [] []) ''db,cpu'') (Circles (demo_proxy three_circles 1))) =
     [Some \<lparr>Url = ''http://a''\<rparr>, Some \<lparr>Url = ''http://b''\<rparr>]"
    by (simp add: demo_simps ring_ok_def)
  have n: "length (filter (ring_ok (demo_env [] []) ''db,cpu'')
       (Circles (demo_proxy three_circles 1))) = 2"
    by (simp add: demo_simps ring_ok_def)
  have l: "skipped_logs (demo_env [] []) ''db,cpu'' 0 (Circles (demo_proxy three_circles 1)) =
     [LogRouterGet 1 ''db,cpu'' (Error ''empty circle'')]"
    by (simp add: demo_simps)
  show ?thesis
    using GetMachines_one_per_routed_circle [of "demo_env [] []" "demo_proxy three_circles 1"
        "''db,cpu''"]
    unfolding r n l by simp
qed

text \<open>
  C1. The claim: when the enqueue to the backend of one circle fails, the failure is
  logged and the backends of the remaining circles still get the write. The code
  returns from \<open>WriteData\<close> at the first failed enqueue. With two circles routed to
  \<open>http://a\<close> and \<open>http://b\<close> and an enqueue that fails on \<open>http://a\<close>, the only
  call is the one on \<open>http://a\<close>, then the log line; \<open>http://b\<close> gets no call and
  its buffer stays empty.
\<close>

theorem WriteData_returns_at_first_enqueue_error:
  "fst (GetMachines (demo_env [''http://a''] []) (demo_proxy two_circles 1) ''db,cpu'') =
     [Some \<lparr>Url = ''http://a''\<rparr>, Some \<lparr>Url = ''http://b''\<rparr>] \<and>
   fst (snd (WriteData (demo_env [''http://a''] []) (demo_proxy two_circles 1)
      (cpu_line ''db'') (\<lambda>url. []))) =
     [CallWriteDataToBuffer (Some \<lparr>Url = ''http://a''\<rparr>)
        \<lparr>Db = ''db'', Line = ''cpu value=1'' @ [CHR 0x0A], Precision = ''n''\<rparr>,
      LogWriteBuffer ''http://a''
        \<lparr>Db = ''db'', Line = ''cpu value=1'' @ [CHR 0x0A], Precision = ''n''\<rparr>
        (Error ''buffer write failed'')] \<and>
   snd (snd (WriteData (demo_env [''http://a''] []) (demo_proxy two_circles 1)
      (cpu_line ''db'') (\<lambda>url. []))) ''http://b'' = []"
  by (simp add: WriteData_def GetMachines_def demo_simps has_newline_suffix_def Let_def)







section \<open>Start-up: properties\<close>

lemma init_circle_at_MigrateMaxCpus:
  "MigrateMaxCpus (init_circle_at i proxy) = MigrateMaxCpus proxy"
  by (simp add: init_circle_at_def initMigration_def Let_def)

lemma fold_init_circle_at_MigrateMaxCpus:
  "MigrateMaxCpus (fold init_circle_at ns proxy) = MigrateMaxCpus proxy"
  by (induction ns arbitrary: proxy) (simp_all add: init_circle_at_MigrateMaxCpus)

lemma query_sets_MigrateMaxCpus:
  "ForbidQuery E proxy cmds = Some proxy' \<Longrightarrow> MigrateMaxCpus proxy' = MigrateMaxCpus proxy"
  "EnsureQuery E proxy cmds = Some proxy' \<Longrightarrow> MigrateMaxCpus proxy' = MigrateMaxCpus proxy"
  "ClusterQuery E proxy cmds = Some proxy' \<Longrightarrow> MigrateMaxCpus proxy' = MigrateMaxCpus proxy"
  by (auto simp: ForbidQuery_def EnsureQuery_def ClusterQuery_def)

text \<open>
  C9. For every configuration that loads, \<open>NewProxy\<close> leaves \<open>MigrateMaxCpus\<close> at 1
  when the configured value is 0 and at the configured value otherwise. (This holds of
  the proxy \<open>NewProxy\<close> has built however the call ends, since no later step of
  \<open>NewProxy\<close> writes the field.)
\<close>

theorem NewProxy_MigrateMaxCpus:
  assumes "loadProxyJson E file = (cfg, None)"
  shows "MigrateMaxCpus (fst (snd (NewProxy E file))) =
    (if MigrateMaxCpus cfg = 0 then 1 else MigrateMaxCpus cfg)"
  using assms
  by (auto simp: NewProxy_def Let_def fold_init_circle_at_MigrateMaxCpus
      split: option.splits dest!: query_sets_MigrateMaxCpus)

theorem NewProxy_MigrateMaxCpus_witness:
  "loadProxyJson (demo_env [] []) ''proxy.json'' = (demo_config 0, None) \<and>
   MigrateMaxCpus (demo_config 0) = 0 \<and>
   fst (NewProxy (demo_env [] []) ''proxy.json'') = Returned \<and>
   MigrateMaxCpus (fst (snd (NewProxy (demo_env [] []) ''proxy.json''))) = 1 \<and>
   loadProxyJson (demo_env [] []) ''cpus4.json'' = (demo_config 4, None) \<and>
   MigrateMaxCpus (fst (snd (NewProxy (demo_env [] []) ''cpus4.json''))) = 4"
proof -
  have h0: "loadProxyJson (demo_env [] []) ''proxy.json'' = (demo_config 0, None)"
    by (simp add: demo_env_def)
  have h4: "loadProxyJson (demo_env [] []) ''cpus4.json'' = (demo_config 4, None)"
    by (simp add: demo_env_def)
  have c0: "MigrateMaxCpus (demo_config 0) = 0" and c4: "MigrateMaxCpus (demo_config 4) = 4"
    by (simp_all add: demo_config_def)
  have r: "fst (NewProxy (demo_env [] []) ''proxy.json'') = Returned"
    by (simp add: NewProxy_def demo_env_def Let_def ForbidQuery_def EnsureQuery_def ClusterQuery_def)
  show ?thesis
    using NewProxy_MigrateMaxCpus [OF h0] NewProxy_MigrateMaxCpus [OF h4] h0 h4 c0 c4 r
    by simp
qed

section \<open>Migration workers: properties\<close>

lemmas worker_simps = RebalanceBackend_def RecoveryBackend_def ResyncBackend_def
  Rebalance_measure_def Recovery_measure_def Resync_measure_def launch_def wg_Add_def Migrate_def
  worker_done_def go_rem_def ClearMigrateStatus_def demo_GetMeasurements_def ab_circle_def
  cd_circle_def backend_a_def backend_b_def armed_circle_def blocked_run_def novnode_circle_def
  fresh_worker_def rebalance_run_def resync_run_def recovery_run_def Let_def


lemma same_ring_refl [simp]: "same_ring c c"
  by (simp add: same_ring_def)


lemma same_ring_vocab:
  assumes "same_ring c c'"
  shows "target E c' = target E c" "routed_away E c' = routed_away E c"
    "migration_of E c' = migration_of E c"
  using assms by (auto simp: same_ring_def target_def routed_away_def migration_of_def fun_eq_iff)





































subsection \<open>A worker whose migrations succeed returns\<close>

lemma launch_returns:
  assumes "BackendWgMap (src_circle w) (Url b) = Some 0"
    and "MigrateMaxCpus proxy \<noteq> 0"
    and "CircleMigrate E c1 b dsts db m l = None"
    and "wg_Add (src_circle w) (Url b) = Some c1"
  shows "\<exists>w'. launch E proxy b dsts db m l w = (Returned, w') \<and>
      BackendWgMap (src_circle w') (Url b) = Some 0 \<and>
      WgMigrate (src_circle w') = WgMigrate (src_circle w) \<and> migrateCount w' = migrateCount w"
  using assms
  by (auto simp: launch_def wg_Add_def Migrate_def Let_def split: option.splits)

lemma wg_Add_some:
  "BackendWgMap c url = Some n \<Longrightarrow> \<exists>c1. wg_Add c url = Some c1"
  by (simp add: wg_Add_def)

lemma Rebalance_measure_returns:
  assumes "gate_idle b k w" and "MigrateMaxCpus proxy \<noteq> 0"
    and "\<And>c dsts db m. CircleMigrate E c b dsts db m 0 = None"
  shows "\<exists>w'. Rebalance_measure E proxy b db m w = (Returned, w') \<and> gate_idle b k w'"
proof -
  obtain url err where g: "Get E (Router (src_circle w)) (db @ '','' @ m) = (url, err)"
    by (cases "Get E (Router (src_circle w)) (db @ '','' @ m)") auto
  show ?thesis
  proof (cases "url = Url b")
    case True
    then show ?thesis
      using g assms(1)
      by (auto simp: Rebalance_measure_def Let_def gate_idle_def split: option.splits)
  next
    case False
    define w2 where "w2 = (case err of
       Some e \<Rightarrow> w\<lparr>slot := (slot w)\<lparr>Measurement := m\<rparr>,
                    trace := trace w @ [LogWorkerRouter db m e]\<rparr>
     | None \<Rightarrow> w\<lparr>slot := (slot w)\<lparr>Measurement := m\<rparr>\<rparr>)"
    define w4 where "w4 = w2\<lparr> slot := (slot w2)\<lparr>BMNeedMigrateCount := BMNeedMigrateCount (slot w2) + 1\<rparr>,
        trace := trace w2 @ [MlogSrcDst (Url b) url db m],
        migrateCount := migrateCount w2 + 1 \<rparr>"
    have c: "src_circle w4 = src_circle w" "migrateCount w4 = migrateCount w + 1"
      by (simp_all add: w4_def w2_def split: option.splits)
    have r: "Rebalance_measure E proxy b db m w =
        launch E proxy b [UrlToBackend (src_circle w) url] db m 0 w4"
      using g False by (auto simp: Rebalance_measure_def Let_def w2_def w4_def split: option.splits)
    from assms(1) have i: "BackendWgMap (src_circle w4) (Url b) = Some 0"
      by (simp add: gate_idle_def c)
    from wg_Add_some [OF i] obtain c1 where a: "wg_Add (src_circle w4) (Url b) = Some c1" ..
    from launch_returns [OF i assms(2) assms(3) a, of "[UrlToBackend (src_circle w) url]" db m]
    show ?thesis
      using assms(1) unfolding r by (auto simp: gate_idle_def c)
  qed
qed

lemma Rebalance_measures_returns:
  assumes "gate_idle b k w" and "MigrateMaxCpus proxy \<noteq> 0"
    and "\<And>c dsts db m. CircleMigrate E c b dsts db m 0 = None"
  shows "\<exists>w'. Rebalance_measures E proxy b db ms w = (Returned, w') \<and> gate_idle b k w'"
  using assms(1)
proof (induction ms arbitrary: w)
  case Nil
  then show ?case by simp
next
  case (Cons m ms)
  from Rebalance_measure_returns [OF Cons.prems assms(2,3)] obtain w1 where
    s: "Rebalance_measure E proxy b db m w = (Returned, w1)" and i: "gate_idle b k w1"
    by blast
  from Cons.IH [OF i] s show ?case by simp
qed

lemma Rebalance_dbs_returns:
  assumes "gate_idle b k w" and "MigrateMaxCpus proxy \<noteq> 0"
    and "\<And>c dsts db m. CircleMigrate E c b dsts db m 0 = None"
  shows "\<exists>w'. Rebalance_dbs E proxy b dbs w = (Returned, w') \<and> gate_idle b k w'"
  using assms(1)
proof (induction dbs arbitrary: w)
  case Nil
  then show ?case by simp
next
  case (Cons db dbs)
  let ?w2 = "w\<lparr>slot := (slot w)\<lparr>Database := db,
      BackendMeasureTotal := int (length (GetMeasurements E b db))\<rparr>\<rparr>"
  from Cons.prems have "gate_idle b k ?w2" by (simp add: gate_idle_def)
  from Rebalance_measures_returns [OF this assms(2,3)] obtain w3 where
    s: "Rebalance_measures E proxy b db (GetMeasurements E b db) ?w2 = (Returned, w3)"
    and i: "gate_idle b k w3"
    by blast
  from Cons.IH [OF i] s show ?case by (simp add: Let_def)
qed

lemma RebalanceBackend_returns:
  assumes "0 \<le> circleNum" and "circleNum < int (length (BackendRebalanceStatus proxy))"
    and "circleNum < int (length (Circles proxy))"
    and "(BackendRebalanceStatus proxy ! nat circleNum) (Url backend) = Some info"
    and "BackendWgMap (Circles proxy ! nat circleNum) (Url backend) = Some 0"
    and "1 \<le> WgMigrate (Circles proxy ! nat circleNum)"
    and "MigrateMaxCpus proxy \<noteq> 0"
    and "\<And>c dsts db m. CircleMigrate E c backend dsts db m 0 = None"
  shows "fst (RebalanceBackend E proxy backend circleNum databases) = Returned"
proof -
  let ?cl = "ClearMigrateStatus (BackendRebalanceStatus proxy ! nat circleNum)"
  let ?p1 = "proxy\<lparr>BackendRebalanceStatus := (BackendRebalanceStatus proxy)[nat circleNum := ?cl]\<rparr>"
  obtain info' where i: "?cl (Url backend) = Some info'"
    using assms(4) by (simp add: ClearMigrateStatus_def)
  let ?w0 = "\<lparr> src_circle = Circles proxy ! nat circleNum, slot = info'\<lparr>CircleNum := circleNum\<rparr>,
         migrateCount = 0, trace = [] \<rparr>"
  have "gate_idle backend (WgMigrate (Circles proxy ! nat circleNum)) ?w0"
    using assms(5) by (simp add: gate_idle_def)
  moreover have "MigrateMaxCpus ?p1 \<noteq> 0" using assms(7) by simp
  ultimately obtain w where
    d: "Rebalance_dbs E ?p1 backend databases ?w0 = (Returned, w)"
    and g: "gate_idle backend (WgMigrate (Circles proxy ! nat circleNum)) w"
    using Rebalance_dbs_returns [of backend _ ?w0 ?p1 E databases] assms(8) by blast
  have "fst (worker_done Returned (src_circle w)) = Returned"
    using g assms(6) by (simp add: worker_done_def gate_idle_def)
  then show ?thesis
    using assms(1,2,3) i d
    by (auto simp: RebalanceBackend_def Let_def split: prod.splits)
qed

subsection \<open>The claims on the workers\<close>



text \<open>
  C2. The claim: after \<open>Proxy.Migrate\<close> returns, the counter of the source's gate has
  been decremented on every path, so the worker's barrier wait always returns and no
  workflow fails to complete because one migration failed. The code decrements only
  when \<open>circle.Migrate\<close> returned nil. With \<open>MigrateMaxCpus\<close> at 1 and a failing copy
  of \<open>disk\<close>: the worker's \<open>Add(1)\<close> puts the counter at 1, \<open>Migrate\<close> logs the
  error and returns with the counter still at 1, the worker waits on the barrier for
  ever, the measurements after \<open>disk\<close> are never scanned, and the deferred
  \<open>WgMigrate.Done()\<close> is never reached, so \<open>WgMigrate\<close> stays at 1 and the
  dispatcher's \<open>WgMigrate.Wait()\<close> does not return either.
\<close>

theorem Migrate_error_blocks_worker:
  "wg_Add ab_circle ''http://a'' = Some armed_circle \<and>
   fst (Migrate (demo_env [] [''disk'']) backend_a [Some backend_b] armed_circle
      ''db'' ''disk'' 0) = Returned \<and>
   BackendWgMap (snd (snd (Migrate (demo_env [] [''disk'']) backend_a [Some backend_b]
      armed_circle ''db'' ''disk'' 0))) ''http://a'' = Some 1 \<and>
   fst blocked_run = Blocked \<and>
   snd (snd blocked_run) =
     [MlogSrcDst ''http://a'' ''http://b'' ''db'' ''disk'',
      GoMigrate backend_a [Some backend_b] ''db'' ''disk'' 0,
      LogMigrate (Error ''migrate failed''), WaitBarrier ''http://a''] \<and>
   BackendWgMap (Circles (fst (snd blocked_run)) ! 0) ''http://a'' = Some 1 \<and>
   WgMigrate (Circles (fst (snd blocked_run)) ! 0) = 1"
  by (simp add: worker_simps demo_simps)

text \<open>
  C10. In the loop body of \<open>RebalanceBackend\<close>, when \<open>Router.Get\<close> returns an error
  (and the empty url with it) for a source backend whose url is not empty, the
  measurement is not skipped: the error is logged, \<open>BMNeedMigrateCount\<close> goes up by
  one, \<open>BMNotMigrateCount\<close> stays, and a migration is launched whose one destination
  is the nil that the lookup of the empty url in \<open>UrlToBackend\<close> gives. The launch
  needs the source's wait group, which \<open>initCircle\<close> gives every backend of the
  circle, and the lookup is nil when no backend of the circle has the empty url.
\<close>

theorem Rebalance_measure_lookup_error:
  assumes "Get E (Router (src_circle w)) (db @ '','' @ m) = ('''', Some err)"
    and "Url backend \<noteq> ''''"
    and "UrlToBackend (src_circle w) '''' = None"
    and "BackendWgMap (src_circle w) (Url backend) = Some n"
  shows "\<exists>st w' rest. Rebalance_measure E proxy backend db m w = (st, w') \<and>
      BMNeedMigrateCount (slot w') = BMNeedMigrateCount (slot w) + 1 \<and>
      BMNotMigrateCount (slot w') = BMNotMigrateCount (slot w) \<and>
      trace w' = trace w @
        [LogWorkerRouter db m err, MlogSrcDst (Url backend) '''' db m,
         GoMigrate backend [None] db m 0] @ rest"
  using assms
  by (auto simp: Rebalance_measure_def launch_def wg_Add_def Let_def
      split: prod.splits option.splits)

theorem Rebalance_measure_lookup_error_witness:
  "Get (demo_env [] []) (Router (src_circle (fresh_worker novnode_circle))) (''db'' @ '','' @ ''cpu'') =
     ('''', Some (Error ''empty circle'')) \<and>
   Url backend_a \<noteq> '''' \<and>
   UrlToBackend (src_circle (fresh_worker novnode_circle)) '''' = None \<and>
   BackendWgMap (src_circle (fresh_worker novnode_circle)) (Url backend_a) = Some 0 \<and>
   BMNeedMigrateCount (slot (snd (Rebalance_measure (demo_env [] []) (demo_proxy [novnode_circle] 1)
      backend_a ''db'' ''cpu'' (fresh_worker novnode_circle)))) = 1 \<and>
   trace (snd (Rebalance_measure (demo_env [] []) (demo_proxy [novnode_circle] 1)
      backend_a ''db'' ''cpu'' (fresh_worker novnode_circle))) =
     [LogWorkerRouter ''db'' ''cpu'' (Error ''empty circle''),
      MlogSrcDst ''http://a'' '''' ''db'' ''cpu'',
      GoMigrate backend_a [None] ''db'' ''cpu'' 0, WaitBarrier ''http://a'']"
proof -
  let ?w = "fresh_worker novnode_circle"
  have h1: "Get (demo_env [] []) (Router (src_circle ?w)) (''db'' @ '','' @ ''cpu'') =
     ('''', Some (Error ''empty circle''))"
    by (simp add: fresh_worker_def novnode_circle_def demo_simps)
  have h2: "Url backend_a \<noteq> ''''" by (simp add: backend_a_def)
  have h3: "UrlToBackend (src_circle ?w) '''' = None"
    by (simp add: fresh_worker_def novnode_circle_def ab_circle_def demo_simps)
  have h4: "BackendWgMap (src_circle ?w) (Url backend_a) = Some 0"
    by (simp add: fresh_worker_def novnode_circle_def ab_circle_def backend_a_def demo_simps)
  have t: "trace (snd (Rebalance_measure (demo_env [] []) (demo_proxy [novnode_circle] 1)
      backend_a ''db'' ''cpu'' ?w)) =
     [LogWorkerRouter ''db'' ''cpu'' (Error ''empty circle''),
      MlogSrcDst ''http://a'' '''' ''db'' ''cpu'',
      GoMigrate backend_a [None] ''db'' ''cpu'' 0, WaitBarrier ''http://a'']"
    by (simp add: worker_simps demo_simps)
  from Rebalance_measure_lookup_error [OF h1 h2 h3 h4, of "demo_proxy [novnode_circle] 1"]
  have "BMNeedMigrateCount (slot (snd (Rebalance_measure (demo_env [] [])
      (demo_proxy [novnode_circle] 1) backend_a ''db'' ''cpu'' ?w))) = 1"
    by (auto simp: fresh_worker_def zero_info_def)
  with h1 h2 h3 h4 t show ?thesis by blast
qed




end
